theory Spec2Isabelle
  imports Complex_Main "HOL-Library.Sublist"
begin

section \<open>Python values used by the service\<close>

text \<open>
  A Python \<open>str\<close> is a sequence of Unicode code points, so a string is a list of
  natural numbers here; \<open>ascii\<close> reads an ASCII literal. The messages of the service
  that are written in Chinese in \<^verbatim>\<open>services.py\<close> are given by their code points.
\<close>

type_synonym pystr = "nat list"

definition ascii :: "string \<Rightarrow> pystr" where
  "ascii cs = map of_char cs"

text \<open>
  An instance of Python's \<open>Exception\<close> (what \<^verbatim>\<open>except Exception\<close> and a bare
  \<^verbatim>\<open>except\<close> both catch): its class name and the text \<open>str(e)\<close> gives.
\<close>

datatype exn = Exn (exn_class: pystr) (exn_str: pystr)

text \<open>\<open>str(n)\<close> for a length: the decimal digits.\<close>

fun str_nat :: "nat \<Rightarrow> pystr" where
  "str_nat n = (if n < 10 then [48 + n] else str_nat (n div 10) @ [48 + n mod 10])"

text \<open>
  \<open>str.isspace\<close> on one code point, as CPython's whitespace table has it; \<open>str.strip()\<close>
  with no argument removes exactly these from both ends.
\<close>

definition isspace :: "nat \<Rightarrow> bool" where
  "isspace c =
     ((9 \<le> c \<and> c \<le> 13) \<or> (28 \<le> c \<and> c \<le> 32) \<or> c = 133 \<or> c = 160 \<or> c = 5760
      \<or> (8192 \<le> c \<and> c \<le> 8202) \<or> c = 8232 \<or> c = 8233 \<or> c = 8239 \<or> c = 8287
      \<or> c = 12288)"

definition lstrip :: "pystr \<Rightarrow> pystr" where
  "lstrip s = dropWhile isspace s"

definition rstrip :: "pystr \<Rightarrow> pystr" where
  "rstrip s = rev (dropWhile isspace (rev s))"

definition strip :: "pystr \<Rightarrow> pystr" where
  "strip s = rstrip (lstrip s)"

text \<open>
  \<open>s.split(sep, 1)\<close>: the text before and after the leftmost occurrence of \<open>sep\<close>, or
  \<open>s\<close> alone when \<open>sep\<close> does not occur; an empty separator raises \<open>ValueError\<close>.
  \<open>partition_first\<close> scans from the left, as \<open>str.split\<close> does.
\<close>

fun partition_first :: "pystr \<Rightarrow> pystr \<Rightarrow> (pystr \<times> pystr) option" where
  "partition_first sep [] = None"
| "partition_first sep (c # cs) =
     (if prefix sep (c # cs) then Some ([], drop (length sep) (c # cs))
      else (case partition_first sep cs of
              None \<Rightarrow> None
            | Some (a, b) \<Rightarrow> Some (c # a, b)))"

definition split_max1 :: "pystr \<Rightarrow> pystr \<Rightarrow> exn + pystr list" where
  "split_max1 sep s =
     (if sep = [] then Inl (Exn (ascii ''ValueError'') (ascii ''empty separator''))
      else Inr (case partition_first sep s of None \<Rightarrow> [s] | Some (a, b) \<Rightarrow> [a, b]))"

definition endswith :: "pystr \<Rightarrow> pystr \<Rightarrow> bool" where
  "endswith s suf = suffix suf s"

definition startswith :: "pystr \<Rightarrow> pystr \<Rightarrow> bool" where
  "startswith s pre = prefix pre s"

text \<open>
  A slice \<open>xs[:k]\<close> with a Python \<open>int\<close>: a negative \<open>k\<close> counts from the end.
\<close>

definition slice_to :: "int \<Rightarrow> 'a list \<Rightarrow> 'a list" where
  "slice_to k xs = (if 0 \<le> k then take (nat k) xs else take (length xs - nat (- k)) xs)"

section \<open>Parsing the generation response\<close>

text \<open>
  Lines 265 to 271 of \<^verbatim>\<open>services.py\<close>, inside \<open>LinearRAGService.query\<close>:
  \<^verbatim>\<open>
  try:
      thought_part, answer_part = response.split('Answer:', 1)
      thought = thought_part.strip()
      answer = answer_part.strip()
  except:
      thought = ""
      answer = response.strip()
  \<close>
  Unpacking a list that does not have two elements raises \<open>ValueError\<close>, which the bare
  \<^verbatim>\<open>except\<close> catches. The result is the pair (thought, answer).
\<close>

definition answer_marker :: pystr where
  "answer_marker = ascii ''Answer:''"

definition unpack2 :: "'a list \<Rightarrow> exn + 'a \<times> 'a" where
  "unpack2 xs =
     (case xs of
        [a, b] \<Rightarrow> Inr (a, b)
      | _ \<Rightarrow> Inl (Exn (ascii ''ValueError'') (ascii ''wrong number of values to unpack'')))"

definition parse_response :: "pystr \<Rightarrow> pystr \<times> pystr" where
  "parse_response response =
     (case split_max1 answer_marker response of
        Inl e \<Rightarrow> ([], strip response)
      | Inr parts \<Rightarrow>
          (case unpack2 parts of
             Inl e \<Rightarrow> ([], strip response)
           | Inr (thought_part, answer_part) \<Rightarrow> (strip thought_part, strip answer_part)))"

section \<open>The data model of \<^verbatim>\<open>services.py\<close>\<close>

text \<open>
  \<open>ProgressInfo\<close> (lines 28 to 38), with its default values. Times are seconds.
\<close>

record progress_info =
  progress :: real
  current_step :: pystr
  total_steps :: int
  completed_steps :: int
  message :: pystr
  status :: pystr
  start_time :: "real option"
  error :: "pystr option"

definition ProgressInfo :: progress_info where
  "ProgressInfo =
     \<lparr>progress = 0, current_step = [], total_steps = 0, completed_steps = 0, message = [],
      status = ascii ''idle'', start_time = None, error = None\<rparr>"

text \<open>
  The objects the service holds but does not implement are opaque handles: the embedding
  model (\<open>SentenceTransformer\<close>), the language-model client (\<open>LLM_Model\<close>) and a registered
  progress callback are known by their identity.
\<close>

datatype sentence_transformer = SentenceTransformerRef nat

datatype llm_client = LLMRef nat

datatype callback = CallbackRef nat

text \<open>
  Modelled from the spec: \<open>LinearRAGConfig\<close> is declared in \<^verbatim>\<open>src/config.py\<close>, which
  is not among the sources. The configuration ``carries model selections and algorithm
  parameters (worker count, retrieval depth, iteration limits, ranking weights)''; its
  fields are the keyword arguments \<open>initialize_config\<close> passes (lines 121 to 136), here
  with the prefix \<open>cfg_\<close>.
\<close>

record linear_rag_config =
  cfg_dataset_name :: pystr
  cfg_embedding_model :: sentence_transformer
  cfg_spacy_model :: pystr
  cfg_llm_model :: llm_client
  cfg_working_dir :: pystr
  cfg_max_workers :: int
  cfg_retrieval_top_k :: int
  cfg_max_iterations :: int
  cfg_top_k_sentence :: int
  cfg_passage_ratio :: real
  cfg_passage_node_weight :: real
  cfg_damping :: real
  cfg_iteration_threshold :: real
  cfg_batch_size :: int

text \<open>
  Modelled from the spec: the class \<open>LinearRAG\<close> of \<^verbatim>\<open>src/LinearRAG.py\<close> is not among
  the sources; the engine is ``an opaque module with an \<open>index(passages)\<close> and
  \<open>retrieve(queries)\<close> contract''. An instance, \<open>LinearRAG(global_config=config)\<close>, is a
  handle that remembers the configuration it was built from (\<open>None\<close> when the caller
  passed none); everything else the engine owns lives in the world outside the service.
\<close>

datatype linear_rag = LinearRAG_instance (global_config: "linear_rag_config option")

text \<open>
  The fields of \<open>LinearRAGService\<close> set by \<open>__init__\<close> (lines 65 to 71). The last field,
  \<open>history\<close>, is not a field of the Python object: it records, oldest first, every value
  \<open>_notify_progress\<close> has written to \<open>self.progress\<close>, so that a property of a whole run
  can be stated. No operation reads it.
\<close>

record service =
  svc_progress :: progress_info
  rag_model :: "linear_rag option"
  config :: "linear_rag_config option"
  embedding_model :: "sentence_transformer option"
  llm_model :: "llm_client option"
  current_dataset :: "pystr option"
  progress_callbacks :: "callback list"
  history :: "progress_info list"

definition LinearRAGService :: service where
  "LinearRAGService =
     \<lparr>svc_progress = ProgressInfo, rag_model = None, config = None, embedding_model = None,
      llm_model = None, current_dataset = None, progress_callbacks = [], history = []\<rparr>"

text \<open>One element of what \<open>retrieve\<close> returns, and the documents and results of a query.\<close>

record retrieval =
  sorted_passage :: "pystr list"
  sorted_passage_scores :: "real list"

record retrieved_document =
  content :: pystr
  score :: real
  passage_id :: pystr

record query_ok =
  question :: pystr
  answer :: "pystr option"
  thought :: "pystr option"
  retrieved_documents :: "retrieved_document list"
  retrieval_time_ms :: real
  llm_time_ms :: "real option"
  total_time_ms :: real

text \<open>
  The three dictionaries \<open>query\<close> returns: the success dictionary (lines 279 to 288), the
  one of the guard (lines 217 to 220), which has the keys \<open>success\<close> and \<open>error\<close> only,
  and the one of the handler (lines 293 to 297), with \<open>success\<close>, \<open>question\<close> and \<open>error\<close>.
\<close>

datatype query_result =
  Success query_ok
| Index_Not_Built pystr
| Query_Failed pystr pystr

text \<open>\<open>result.get(key)\<close>: \<open>None\<close> for a key that is absent or holds \<open>None\<close>.\<close>

fun result_question :: "query_result \<Rightarrow> pystr option" where
  "result_question (Success ok) = Some (question ok)"
| "result_question (Index_Not_Built err) = None"
| "result_question (Query_Failed q err) = Some q"




fun result_documents :: "query_result \<Rightarrow> retrieved_document list option" where
  "result_documents (Success ok) = Some (retrieved_documents ok)"
| "result_documents (Index_Not_Built err) = None"
| "result_documents (Query_Failed q err) = None"

text \<open>The dictionaries \<open>process_documents\<close> and \<open>batch_query\<close> return.\<close>

datatype process_result =
  Processed (pr_message: pystr) (documents_count: nat) (pr_dataset_name: pystr)
| Process_Failed (pr_message: pystr) (pr_error: pystr)

record batch_result =
  results :: "query_result list"
  batch_total_time_ms :: real
  questions_count :: nat

section \<open>The world outside the service\<close>

text \<open>
  Everything the service calls but does not implement is a parameter: the constructors
  and methods of the models and of the retrieval engine, the callbacks, the clock, the
  file system, \<open>hashlib.md5\<close> and \<open>round\<close>. A call takes the state of the world \<open>'w\<close>
  and returns its result, a value or a raised exception, with the world after it; what
  \<open>'w\<close> is stays open, so a collaborator may answer the same call differently each time.
  The file-system tests only read the world.
\<close>

record 'w env =
  SentenceTransformer :: "pystr \<Rightarrow> 'w \<Rightarrow> (exn + sentence_transformer) \<times> 'w"
  LLM_Model :: "pystr \<Rightarrow> 'w \<Rightarrow> (exn + llm_client) \<times> 'w"
  LinearRAG :: "linear_rag_config option \<Rightarrow> 'w \<Rightarrow> (exn + linear_rag) \<times> 'w"
  rag_index :: "linear_rag \<Rightarrow> pystr list \<Rightarrow> 'w \<Rightarrow> (exn + unit) \<times> 'w"
  rag_retrieve :: "linear_rag \<Rightarrow> (pystr \<times> pystr) list \<Rightarrow> 'w \<Rightarrow> (exn + retrieval list) \<times> 'w"
  llm_infer :: "llm_client \<Rightarrow> (pystr \<times> pystr) list \<Rightarrow> 'w \<Rightarrow> (exn + pystr) \<times> 'w"
  callback_call :: "callback \<Rightarrow> progress_info \<Rightarrow> 'w \<Rightarrow> (exn + unit) \<times> 'w"
  time_time :: "'w \<Rightarrow> real \<times> 'w"
  datetime_now :: "'w \<Rightarrow> real \<times> 'w"
  md5_hexdigest :: "pystr \<Rightarrow> pystr"
  round2 :: "real \<Rightarrow> real"
  os_path_exists :: "pystr \<Rightarrow> 'w \<Rightarrow> bool"
  os_path_isdir :: "pystr \<Rightarrow> 'w \<Rightarrow> bool"
  os_listdir :: "pystr \<Rightarrow> 'w \<Rightarrow> exn + pystr list"

text \<open>\<open>os.path.join(a, b)\<close> of \<open>posixpath\<close>, for two components.\<close>

definition os_path_join :: "pystr \<Rightarrow> pystr \<Rightarrow> pystr" where
  "os_path_join a b =
     (if startswith b (ascii ''/'') then b
      else if a = [] \<or> endswith a (ascii ''/'') then a @ b
      else a @ ascii ''/'' @ b)"

section \<open>The messages of the service\<close>

definition msg_loading_embedding :: pystr where
  "msg_loading_embedding =
     [27491, 22312, 21152, 36733, 23884, 20837, 27169, 22411, 46, 46, 46]"

definition msg_loading_llm :: pystr where
  "msg_loading_llm = [27491, 22312, 21152, 36733, 76, 76, 77, 27169, 22411, 46, 46, 46]"

definition msg_initializing :: "pystr \<Rightarrow> pystr" where
  "msg_initializing dataset_name =
     [27491, 22312, 21021, 22987, 21270, 25968, 25454, 38598, 58, 32] @ dataset_name"

definition msg_creating_rag :: pystr where
  "msg_creating_rag =
     [27491, 22312, 21019, 24314, 76, 105, 110, 101, 97, 114, 82, 65, 71, 23454, 20363,
      46, 46, 46]"

definition msg_indexing :: "nat \<Rightarrow> pystr" where
  "msg_indexing n =
     [27491, 22312, 32034, 24341, 32] @ str_nat n @ [32, 20010, 25991, 26723, 46, 46, 46]"

definition msg_completed :: "nat \<Rightarrow> pystr" where
  "msg_completed n =
     [32034, 24341, 23436, 25104, 33, 32, 20849, 22788, 29702, 32] @ str_nat n
       @ [32, 20010, 25991, 26723]"

definition msg_success :: "nat \<Rightarrow> pystr" where
  "msg_success n = [25104, 21151, 32034, 24341, 32] @ str_nat n @ [32, 20010, 25991, 26723]"

definition msg_failed :: "pystr \<Rightarrow> pystr" where
  "msg_failed err = [22788, 29702, 22833, 36133, 58, 32] @ err"

definition msg_index_not_built :: pystr where
  "msg_index_not_built =
     [32034, 24341, 26410, 26500, 24314, 65292, 35831, 20808, 22788, 29702, 25991, 26723]"

definition system_prompt :: pystr where
  \<open>system_prompt = ascii (''As an advanced reading comprehension assistant, your task is to analyze text passages and corresponding questions meticulously. Your response start after "Thought: ", where you will methodically break down the reasoning process, illustrating how you arrive at conclusions. Conclude with "Answer: " to present a concise, definitive response, devoid of additional elaborations.'')\<close>

section \<open>The operations of \<open>LinearRAGService\<close>\<close>

text \<open>
  An operation takes the service and the world and returns them updated, with its
  result: \<open>Inr\<close> a returned value, \<open>Inl\<close> an exception that leaves the method. What the
  logger writes is not modelled.
\<close>

text \<open>
  \<open>_notify_progress\<close> (lines 73 to 82): the three fields are overwritten, then every
  registered callback is called with the progress object; an exception of a callback is
  caught, so only the world it leaves behind counts.
\<close>

definition notify_progress ::
  "'w env \<Rightarrow> real \<Rightarrow> pystr \<Rightarrow> pystr \<Rightarrow> service \<Rightarrow> 'w \<Rightarrow> service \<times> 'w" where
  "notify_progress env p step msg s w =
     (let info = (svc_progress s)\<lparr>progress := p, current_step := step, message := msg\<rparr>;
          s' = s\<lparr>svc_progress := info, history := history s @ [info]\<rparr>
      in (s', fold (\<lambda>cb w'. snd (callback_call env cb info w')) (progress_callbacks s') w))"

definition register_progress_callback :: "callback \<Rightarrow> service \<Rightarrow> service" where
  "register_progress_callback cb s = s\<lparr>progress_callbacks := progress_callbacks s @ [cb]\<rparr>"

text \<open>\<open>load_embedding_model\<close> (lines 88 to 93) and \<open>load_llm_model\<close> (lines 95 to 100).\<close>

definition load_embedding_model ::
  "'w env \<Rightarrow> pystr \<Rightarrow> service \<Rightarrow> 'w \<Rightarrow> (exn + sentence_transformer) \<times> service \<times> 'w" where
  "load_embedding_model env model_path s w =
     (case embedding_model s of
        Some m \<Rightarrow> (Inr m, s, w)
      | None \<Rightarrow>
          (let (s1, w1) = notify_progress env (1 / 10) (ascii ''loading_embedding'')
                            msg_loading_embedding s w;
               (r, w2) = SentenceTransformer env model_path w1
           in case r of
                Inl e \<Rightarrow> (Inl e, s1, w2)
              | Inr m \<Rightarrow> (Inr m, s1\<lparr>embedding_model := Some m\<rparr>, w2)))"

definition load_llm_model ::
  "'w env \<Rightarrow> pystr \<Rightarrow> service \<Rightarrow> 'w \<Rightarrow> (exn + llm_client) \<times> service \<times> 'w" where
  "load_llm_model env model_name s w =
     (case llm_model s of
        Some m \<Rightarrow> (Inr m, s, w)
      | None \<Rightarrow>
          (let (s1, w1) = notify_progress env (2 / 10) (ascii ''loading_llm'')
                            msg_loading_llm s w;
               (r, w2) = LLM_Model env model_name w1
           in case r of
                Inl e \<Rightarrow> (Inl e, s1, w2)
              | Inr m \<Rightarrow> (Inr m, s1\<lparr>llm_model := Some m\<rparr>, w2)))"

text \<open>\<open>initialize_config\<close> (lines 102 to 137); an exception of a loader leaves it.\<close>

definition initialize_config ::
  "'w env \<Rightarrow> pystr \<Rightarrow> pystr \<Rightarrow> pystr \<Rightarrow> pystr \<Rightarrow> pystr \<Rightarrow> int \<Rightarrow> int \<Rightarrow> int \<Rightarrow> int
     \<Rightarrow> real \<Rightarrow> real \<Rightarrow> real \<Rightarrow> real \<Rightarrow> int \<Rightarrow> service \<Rightarrow> 'w
     \<Rightarrow> (exn + linear_rag_config) \<times> service \<times> 'w" where
  "initialize_config env dataset_name embedding_model_path spacy_model llm_model_name
       working_dir max_workers retrieval_top_k max_iterations top_k_sentence passage_ratio
       passage_node_weight damping iteration_threshold batch_size s w =
     (case load_embedding_model env embedding_model_path s w of
        (Inl e, s1, w1) \<Rightarrow> (Inl e, s1, w1)
      | (Inr em, s1, w1) \<Rightarrow>
          (case load_llm_model env llm_model_name s1 w1 of
             (Inl e, s2, w2) \<Rightarrow> (Inl e, s2, w2)
           | (Inr lm, s2, w2) \<Rightarrow>
               (let c = \<lparr>cfg_dataset_name = dataset_name, cfg_embedding_model = em,
                         cfg_spacy_model = spacy_model, cfg_llm_model = lm,
                         cfg_working_dir = working_dir, cfg_max_workers = max_workers,
                         cfg_retrieval_top_k = retrieval_top_k,
                         cfg_max_iterations = max_iterations,
                         cfg_top_k_sentence = top_k_sentence,
                         cfg_passage_ratio = passage_ratio,
                         cfg_passage_node_weight = passage_node_weight,
                         cfg_damping = damping,
                         cfg_iteration_threshold = iteration_threshold,
                         cfg_batch_size = batch_size\<rparr>
                in (Inr c, s2\<lparr>config := Some c\<rparr>, w2))))"

text \<open>
  \<open>process_documents\<close> (lines 139 to 199). \<open>process_documents_try\<close> is the body of its
  \<^verbatim>\<open>try\<close> (lines 164 to 188); \<open>process_documents\<close> adds what precedes it and the handler.
\<close>

definition process_documents_try ::
  "'w env \<Rightarrow> pystr list \<Rightarrow> pystr \<Rightarrow> linear_rag_config option \<Rightarrow> service \<Rightarrow> 'w
     \<Rightarrow> (exn + process_result) \<times> service \<times> 'w" where
  "process_documents_try env passages dataset_name cfg s w =
     (let (s1, w1) = notify_progress env (5 / 100) (ascii ''initializing'')
                       (msg_initializing dataset_name) s w;
          cfg' = (case cfg of None \<Rightarrow> config s1 | Some c \<Rightarrow> Some c);
          s2 = s1\<lparr>current_dataset := Some dataset_name\<rparr>;
          (s3, w3) = notify_progress env (15 / 100) (ascii ''creating_rag'') msg_creating_rag s2 w1;
          (r, w4) = LinearRAG env cfg' w3
      in case r of
           Inl e \<Rightarrow> (Inl e, s3, w4)
         | Inr rag \<Rightarrow>
             (let s4 = s3\<lparr>rag_model := Some rag\<rparr>;
                  (s5, w5) = notify_progress env (25 / 100) (ascii ''indexing'')
                               (msg_indexing (length passages)) s4 w4;
                  (r', w6) = rag_index env rag passages w5
              in case r' of
                   Inl e \<Rightarrow> (Inl e, s5, w6)
                 | Inr u \<Rightarrow>
                     (let (s6, w7) = notify_progress env 1 (ascii ''completed'')
                                       (msg_completed (length passages)) s5 w6;
                          s7 = s6\<lparr>svc_progress := (svc_progress s6)\<lparr>status := ascii ''completed''\<rparr>\<rparr>
                      in (Inr (Processed (msg_success (length passages)) (length passages)
                                 dataset_name), s7, w7))))"

definition process_documents ::
  "'w env \<Rightarrow> pystr list \<Rightarrow> pystr \<Rightarrow> linear_rag_config option \<Rightarrow> callback option
     \<Rightarrow> service \<Rightarrow> 'w \<Rightarrow> (exn + process_result) \<times> service \<times> 'w" where
  "process_documents env passages dataset_name cfg progress_callback s w =
     (let s0 = (case progress_callback of
                  None \<Rightarrow> s
                | Some cb \<Rightarrow> register_progress_callback cb s);
          (now, w0) = datetime_now env w;
          s1 = s0\<lparr>svc_progress := (svc_progress s0)
                  \<lparr>status := ascii ''running'', start_time := Some now, total_steps := 4\<rparr>\<rparr>
      in case process_documents_try env passages dataset_name cfg s1 w0 of
           (Inr r, s', w') \<Rightarrow> (Inr r, s', w')
         | (Inl e, s', w') \<Rightarrow>
             (let s2 = s'\<lparr>svc_progress := (svc_progress s')
                           \<lparr>status := ascii ''error'', error := Some (exn_str e)\<rparr>\<rparr>;
                  (s3, w3) = notify_progress env 0 (ascii ''error'') (msg_failed (exn_str e)) s2 w'
              in (Inr (Process_Failed (msg_failed (exn_str e)) (exn_str e)), s3, w3)))"

text \<open>
  \<open>query\<close> (lines 201 to 297). \<open>format_documents\<close> is the loop of lines 232 to 239,
  \<open>build_messages\<close> lines 249 to 259, \<open>query_try\<close> the body of the \<^verbatim>\<open>try\<close> (lines 225
  to 288), which gets the reading of the clock taken before it.
\<close>

definition format_documents :: "'w env \<Rightarrow> retrieval \<Rightarrow> retrieved_document list" where
  "format_documents env retrieval_result =
     map (\<lambda>(passage, sc).
            \<lparr>content = passage, score = sc, passage_id = take 8 (md5_hexdigest env passage)\<rparr>)
         (zip (sorted_passage retrieval_result) (sorted_passage_scores retrieval_result))"

definition build_messages :: "retrieval \<Rightarrow> pystr \<Rightarrow> int \<Rightarrow> (pystr \<times> pystr) list" where
  "build_messages retrieval_result q top_k =
     (let prompt_user =
            concat (map (\<lambda>passage. passage @ [10])
                      (slice_to top_k (sorted_passage retrieval_result)))
              @ ascii ''Question: '' @ q @ [10] @ ascii '' Thought: ''
      in [(ascii ''system'', system_prompt), (ascii ''user'', prompt_user)])"

definition query_try ::
  "'w env \<Rightarrow> linear_rag \<Rightarrow> pystr \<Rightarrow> int \<Rightarrow> bool \<Rightarrow> real \<Rightarrow> service \<Rightarrow> 'w
     \<Rightarrow> (exn + query_ok) \<times> service \<times> 'w" where
  "query_try env rag q top_k use_llm start s w =
     (let s1 = s\<lparr>svc_progress := (svc_progress s)\<lparr>status := ascii ''querying''\<rparr>\<rparr>;
          (r, w1) = rag_retrieve env rag [(q, [])] w
      in case r of
           Inl e \<Rightarrow> (Inl e, s1, w1)
         | Inr [] \<Rightarrow> (Inl (Exn (ascii ''IndexError'') (ascii ''list index out of range'')), s1, w1)
         | Inr (retrieval_result # others) \<Rightarrow>
             (let (t1, w2) = time_time env w1;
                  retrieval_time = (t1 - start) * 1000;
                  docs = format_documents env retrieval_result;
                  done = (\<lambda>ans th llm_time w'.
                     (let (t3, w3) = time_time env w';
                          total_time = (t3 - start) * 1000;
                          s2 = s1\<lparr>svc_progress := (svc_progress s1)\<lparr>status := ascii ''completed''\<rparr>\<rparr>
                      in (Inr \<lparr>question = q, answer = ans, thought = th,
                               retrieved_documents = docs,
                               retrieval_time_ms = round2 env retrieval_time,
                               llm_time_ms = (if use_llm then Some (round2 env llm_time) else None),
                               total_time_ms = round2 env total_time\<rparr>, s2, w3)))
              in if use_llm then
                   (let (llm_start, w4) = time_time env w2;
                        messages = build_messages retrieval_result q top_k
                    in case llm_model s1 of
                         None \<Rightarrow> (Inl (Exn (ascii ''AttributeError'')
                                    (ascii ''NoneType object has no attribute infer'')), s1, w4)
                       | Some llm \<Rightarrow>
                           (let (resp, w5) = llm_infer env llm messages w4
                            in case resp of
                                 Inl e \<Rightarrow> (Inl e, s1, w5)
                               | Inr response \<Rightarrow>
                                   (let (th, ans) = parse_response response;
                                        (t2, w6) = time_time env w5;
                                        llm_time = (t2 - llm_start) * 1000
                                    in done (Some ans) (Some th) llm_time w6)))
                 else done None None 0 w2))"

definition query ::
  "'w env \<Rightarrow> pystr \<Rightarrow> int \<Rightarrow> bool \<Rightarrow> service \<Rightarrow> 'w \<Rightarrow> (exn + query_result) \<times> service \<times> 'w" where
  "query env q top_k use_llm s w =
     (case rag_model s of
        None \<Rightarrow> (Inr (Index_Not_Built msg_index_not_built), s, w)
      | Some rag \<Rightarrow>
          (let (start, w0) = time_time env w
           in case query_try env rag q top_k use_llm start s w0 of
                (Inr ok, s', w') \<Rightarrow> (Inr (Success ok), s', w')
              | (Inl e, s', w') \<Rightarrow>
                  (Inr (Query_Failed q (exn_str e)),
                   s'\<lparr>svc_progress := (svc_progress s')\<lparr>status := ascii ''error''\<rparr>\<rparr>, w')))"

text \<open>
  \<open>batch_query\<close> (lines 299 to 318); \<open>batch_loop\<close> is its \<^verbatim>\<open>for\<close> loop. An exception
  leaving \<open>query\<close> would leave the loop and \<open>batch_query\<close> as well.
\<close>

fun batch_loop ::
  "'w env \<Rightarrow> int \<Rightarrow> bool \<Rightarrow> pystr list \<Rightarrow> query_result list \<Rightarrow> service \<Rightarrow> 'w
     \<Rightarrow> (exn + query_result list) \<times> service \<times> 'w" where
  "batch_loop env top_k use_llm [] acc s w = (Inr acc, s, w)"
| "batch_loop env top_k use_llm (q # qs) acc s w =
     (case query env q top_k use_llm s w of
        (Inl e, s', w') \<Rightarrow> (Inl e, s', w')
      | (Inr r, s', w') \<Rightarrow> batch_loop env top_k use_llm qs (acc @ [r]) s' w')"

definition batch_query ::
  "'w env \<Rightarrow> pystr list \<Rightarrow> int \<Rightarrow> bool \<Rightarrow> service \<Rightarrow> 'w \<Rightarrow> (exn + batch_result) \<times> service \<times> 'w" where
  "batch_query env questions top_k use_llm s w =
     (let (start, w0) = time_time env w
      in case batch_loop env top_k use_llm questions [] s w0 of
           (Inl e, s', w') \<Rightarrow> (Inl e, s', w')
         | (Inr rs, s', w') \<Rightarrow>
             (let (t, w1) = time_time env w';
                  total_time = (t - start) * 1000
              in (Inr \<lparr>results = rs, batch_total_time_ms = round2 env total_time,
                       questions_count = length questions\<rparr>, s', w1)))"




text \<open>\<open>clear\<close> (lines 358 to 363).\<close>

definition clear :: "service \<Rightarrow> service" where
  "clear s = s\<lparr>rag_model := None, config := None, current_dataset := None,
               svc_progress := ProgressInfo\<rparr>"

section \<open>Reading results and runs\<close>

text \<open>The value an operation returned, if it returned, and the service after it.\<close>

definition returned :: "(exn + 'a) \<times> service \<times> 'w \<Rightarrow> 'a option" where
  "returned out = (case fst out of Inl e \<Rightarrow> None | Inr a \<Rightarrow> Some a)"

definition service_after :: "'r \<times> service \<times> 'w \<Rightarrow> service" where
  "service_after out = fst (snd out)"

definition world_after :: "'r \<times> service \<times> 'w \<Rightarrow> 'w" where
  "world_after out = snd (snd out)"

text \<open>
  The values \<open>progress\<close> took between two states of the service, oldest first: what
  \<open>_notify_progress\<close> wrote after \<open>s\<close> and up to \<open>s'\<close>.
\<close>

definition progress_written :: "service \<Rightarrow> service \<Rightarrow> real list" where
  "progress_written s s' = map progress (drop (length (history s)) (history s'))"



section \<open>A small world to run the service in\<close>

text \<open>
  A concrete world for the examples: a clock that advances by one second at each
  reading, a counter for object identities, a file system, the passages the engine has
  indexed, the reply of the language model, and whether storage is full.
  A path maps to \<open>None\<close> when it is a file and to its entries when it is a directory.
\<close>

record sim_world =
  sim_ticks :: nat
  sim_next_id :: nat
  sim_fs :: "(pystr \<times> pystr list option) list"
  sim_indexed :: "pystr list"
  sim_llm_reply :: "exn + pystr"
  sim_storage_full :: bool

definition sim_put :: "pystr \<Rightarrow> pystr list option \<Rightarrow> (pystr \<times> pystr list option) list
    \<Rightarrow> (pystr \<times> pystr list option) list" where
  "sim_put path entry fs = (path, entry) # filter (\<lambda>(p', e). p' \<noteq> path) fs"

definition sim_entries :: "(pystr \<times> pystr list option) list \<Rightarrow> pystr \<Rightarrow> pystr list" where
  "sim_entries fs path = (case map_of fs path of Some (Some es) \<Rightarrow> es | _ \<Rightarrow> [])"

text \<open>
  Modelled from the spec: \<open>index\<close> of the retrieval engine, \<^verbatim>\<open>src/LinearRAG.py\<close>, which
  is not among the sources. A dataset is ``a directory under a working root containing
  one or more index artifact files'', ``created ... on first successful index build'',
  and \<open>index\<close> ``fails by raising on malformed input or resource exhaustion''. Here the
  engine writes \<open>passage_embedding.parquet\<close> into the directory its configuration names,
  lists that directory in the working root, and raises when storage is full or when it
  was built without a configuration.
\<close>

definition sim_index :: "linear_rag \<Rightarrow> pystr list \<Rightarrow> sim_world \<Rightarrow> (exn + unit) \<times> sim_world" where
  "sim_index rag passages w =
     (case global_config rag of
        None \<Rightarrow> (Inl (Exn (ascii ''AttributeError'') (ascii ''no configuration'')), w)
      | Some c \<Rightarrow>
          if sim_storage_full w
          then (Inl (Exn (ascii ''OSError'') (ascii ''No space left on device'')), w)
          else
            (let root = cfg_working_dir c;
                 name = cfg_dataset_name c;
                 listed = sim_entries (sim_fs w) root;
                 fs1 = sim_put root (Some (if name \<in> set listed then listed
                                           else listed @ [name])) (sim_fs w);
                 fs2 = sim_put (os_path_join root name)
                         (Some [ascii ''passage_embedding.parquet'']) fs1
             in (Inr (), w\<lparr>sim_fs := fs2, sim_indexed := passages\<rparr>)))"

text \<open>
  Modelled from the spec: \<open>retrieve\<close> of the retrieval engine, absent as well. It returns
  ``one result per query, same length and order as input'', the passages ``already sorted
  descending by relevance''. Here the engine ranks the indexed passages in the order
  they were indexed, at most \<open>retrieval_top_k\<close> of them, with the scores 1, 1/2, 1/3 and so
  on, and raises when nothing is indexed or when it was built without a configuration.
\<close>

definition sim_scores :: "nat \<Rightarrow> real list" where
  "sim_scores n = map (\<lambda>i. 1 / real (Suc i)) [0..<n]"

definition sim_retrieve ::
  "linear_rag \<Rightarrow> (pystr \<times> pystr) list \<Rightarrow> sim_world \<Rightarrow> (exn + retrieval list) \<times> sim_world" where
  "sim_retrieve rag queries w =
     (case global_config rag of
        None \<Rightarrow> (Inl (Exn (ascii ''AttributeError'') (ascii ''no configuration'')), w)
      | Some c \<Rightarrow>
          if sim_indexed w = []
          then (Inl (Exn (ascii ''ValueError'') (ascii ''nothing is indexed'')), w)
          else
            (let ranked = take (nat (cfg_retrieval_top_k c)) (sim_indexed w)
             in (Inr (map (\<lambda>item. \<lparr>sorted_passage = ranked,
                                     sorted_passage_scores = sim_scores (length ranked)\<rparr>)
                        queries), w)))"

text \<open>
  Modelled from the spec: the model runtimes (\<open>SentenceTransformer\<close>, and \<open>LLM_Model\<close> of
  \<^verbatim>\<open>src/utils.py\<close>) are not among the sources; they are ``opaque callables'',
  \<open>handle.infer(messages) -> text\<close>. Here the constructors hand out fresh identities, the
  language model replies what the world holds, and callbacks do nothing. The clock, the
  file system, the digest and the rounding are stand-ins for the Python library; no
  property below reads the values of the digest or of the rounding.
\<close>

definition sim_tick :: "sim_world \<Rightarrow> real \<times> sim_world" where
  "sim_tick w = (real (sim_ticks w), w\<lparr>sim_ticks := Suc (sim_ticks w)\<rparr>)"

definition sim_listdir :: "pystr \<Rightarrow> sim_world \<Rightarrow> exn + pystr list" where
  "sim_listdir path w =
     (case map_of (sim_fs w) path of
        None \<Rightarrow> Inl (Exn (ascii ''FileNotFoundError'') path)
      | Some None \<Rightarrow> Inl (Exn (ascii ''NotADirectoryError'') path)
      | Some (Some es) \<Rightarrow> Inr es)"

definition sim_env :: "sim_world env" where
  "sim_env =
     \<lparr>SentenceTransformer =
        (\<lambda>path w. (Inr (SentenceTransformerRef (sim_next_id w)),
                    w\<lparr>sim_next_id := Suc (sim_next_id w)\<rparr>)),
      LLM_Model =
        (\<lambda>name w. (Inr (LLMRef (sim_next_id w)), w\<lparr>sim_next_id := Suc (sim_next_id w)\<rparr>)),
      LinearRAG = (\<lambda>cfg w. (Inr (LinearRAG_instance cfg), w)),
      rag_index = sim_index,
      rag_retrieve = sim_retrieve,
      llm_infer = (\<lambda>llm messages w. (sim_llm_reply w, w)),
      callback_call = (\<lambda>cb info w. (Inr (), w)),
      time_time = sim_tick,
      datetime_now = sim_tick,
      md5_hexdigest = (\<lambda>passage. replicate 32 48),
      round2 = (\<lambda>x. real_of_int (round (x * 100)) / 100),
      os_path_exists = (\<lambda>path w. map_of (sim_fs w) path \<noteq> None),
      os_path_isdir =
        (\<lambda>path w. case map_of (sim_fs w) path of Some (Some es) \<Rightarrow> True | _ \<Rightarrow> False),
      os_listdir = sim_listdir\<rparr>"

text \<open>
  The world at start: an empty working root \<open>./import\<close>, nothing indexed, a language
  model that answers in the expected format.
\<close>

definition sim_start :: sim_world where
  "sim_start =
     \<lparr>sim_ticks = 0, sim_next_id = 0, sim_fs = [(ascii ''./import'', Some [])],
      sim_indexed = [],
      sim_llm_reply = Inr (ascii ''doc1 is mentioned first. Answer: doc1 text ''),
      sim_storage_full = False\<rparr>"

definition wiki5_config :: linear_rag_config where
  "wiki5_config =
     \<lparr>cfg_dataset_name = ascii ''wiki5'', cfg_embedding_model = SentenceTransformerRef 0,
      cfg_spacy_model = ascii ''en_core_web_trf'', cfg_llm_model = LLMRef 1,
      cfg_working_dir = ascii ''./import'', cfg_max_workers = 4, cfg_retrieval_top_k = 5,
      cfg_max_iterations = 3, cfg_top_k_sentence = 1, cfg_passage_ratio = 3 / 2,
      cfg_passage_node_weight = 5 / 100, cfg_damping = 1 / 2,
      cfg_iteration_threshold = 1 / 2, cfg_batch_size = 128\<rparr>"

definition wiki5_passages :: "pystr list" where
  "wiki5_passages = [ascii ''doc1 text'', ascii ''doc2 text'']"

text \<open>
  The runs the examples use. \<open>wiki5_run\<close> indexes the two passages on a fresh service,
  the configuration passed as an argument, as \<open>start_indexing\<close> of \<^verbatim>\<open>app.py\<close> calls
  \<open>process_documents\<close> (lines 327 to 331); \<open>wiki5_run_full\<close> is the same run on full
  storage, \<open>wiki5_run_configured\<close> the same run on a service whose configuration is
  active. \<open>wiki5_service\<close> is a service with the dataset active, its configuration set
  and both models cached.
\<close>

definition wiki5_question :: pystr where
  "wiki5_question = ascii ''What is doc1 about?''"

definition wiki5_run :: "(exn + process_result) \<times> service \<times> sim_world" where
  "wiki5_run =
     process_documents sim_env wiki5_passages (ascii ''wiki5'') (Some wiki5_config) None
       LinearRAGService sim_start"

definition wiki5_run_full :: "(exn + process_result) \<times> service \<times> sim_world" where
  "wiki5_run_full =
     process_documents sim_env wiki5_passages (ascii ''wiki5'') (Some wiki5_config) None
       LinearRAGService (sim_start\<lparr>sim_storage_full := True\<rparr>)"


definition wiki5_indexed :: sim_world where
  "wiki5_indexed =
     sim_start\<lparr>sim_ticks := 1,
       sim_fs := [(ascii ''./import/wiki5'', Some [ascii ''passage_embedding.parquet'']),
                  (ascii ''./import'', Some [ascii ''wiki5''])],
       sim_indexed := wiki5_passages\<rparr>"

definition wiki5_service :: service where
  "wiki5_service =
     LinearRAGService
       \<lparr>rag_model := Some (LinearRAG_instance (Some wiki5_config)),
        config := Some wiki5_config,
        embedding_model := Some (SentenceTransformerRef 0),
        llm_model := Some (LLMRef 1),
        current_dataset := Some (ascii ''wiki5'')\<rparr>"

definition wiki5_first_load :: "(exn + sentence_transformer) \<times> service \<times> sim_world" where
  "wiki5_first_load =
     load_embedding_model sim_env (ascii ''model/all-mpnet-base-v2'') LinearRAGService sim_start"

section \<open>Facts about splitting and trimming\<close>









text \<open>What \<open>strip\<close> removes: a run of whitespace at each end, and nothing else.\<close>

lemma rev_split_while:
  "rev (dropWhile P (rev xs)) @ rev (takeWhile P (rev xs)) = xs"
proof -
  have "rev (takeWhile P (rev xs) @ dropWhile P (rev xs)) = rev (rev xs)"
    by (simp only: takeWhile_dropWhile_id)
  then show ?thesis
    by (simp only: rev_append rev_rev_ident)
qed

lemma list_all_takeWhile: "list_all P (takeWhile P xs)"
  by (induction xs) auto

lemma strip_decomposition:
  "\<exists>l r. s = l @ strip s @ r \<and> list_all isspace l \<and> list_all isspace r"
proof -
  let ?l = "takeWhile isspace s"
  let ?m = "dropWhile isspace s"
  let ?r = "rev (takeWhile isspace (rev ?m))"
  have m: "?m = strip s @ ?r"
    by (simp add: strip_def rstrip_def lstrip_def rev_split_while)
  have "s = ?l @ ?m" by simp
  with m have "s = ?l @ strip s @ ?r" by simp
  moreover have "list_all isspace ?l"
    by (rule list_all_takeWhile)
  moreover have "list_all isspace ?r"
    by (simp only: list_all_rev list_all_takeWhile)
  ultimately show ?thesis by blast
qed

lemma strip_ends:
  "strip s \<noteq> [] \<Longrightarrow> \<not> isspace (hd (strip s)) \<and> \<not> isspace (last (strip s))"
proof
  assume ne: "strip s \<noteq> []"
  let ?m = "dropWhile isspace s"
  let ?d = "dropWhile isspace (rev ?m)"
  from ne have d: "?d \<noteq> []"
    by (simp add: strip_def rstrip_def lstrip_def)
  then have "\<not> isspace (hd ?d)"
    by (rule hd_dropWhile)
  with d show "\<not> isspace (last (strip s))"
    by (simp add: strip_def rstrip_def lstrip_def last_rev)
  from d have m: "?m \<noteq> []"
    by (metis dropWhile.simps(1) rev.simps(1))
  then have hm: "\<not> isspace (hd ?m)"
    by (rule hd_dropWhile)
  have "rev ?d @ rev (takeWhile isspace (rev ?m)) = ?m"
    by (rule rev_split_while)
  with d have "hd ?m = hd (rev ?d)"
    by (metis hd_append2 rev_is_Nil_conv)
  with hm show "\<not> isspace (hd (strip s))"
    by (simp add: strip_def rstrip_def lstrip_def)
qed


section \<open>Facts about the small world\<close>

lemma sim_time: "time_time sim_env w = (real (sim_ticks w), w\<lparr>sim_ticks := Suc (sim_ticks w)\<rparr>)"
  by (simp add: sim_env_def sim_tick_def)


lemma sim_retrieve_wiki5:
  "sim_indexed w = wiki5_passages \<Longrightarrow>
   rag_retrieve sim_env (LinearRAG_instance (Some wiki5_config)) [(q, [])] w =
     (Inr [\<lparr>sorted_passage = wiki5_passages, sorted_passage_scores = [1, 1 / 2]\<rparr>], w)"
  by (simp add: sim_env_def sim_retrieve_def wiki5_config_def wiki5_passages_def sim_scores_def)




text \<open>
  The run \<open>wiki5_run\<close> completes, leaves the engine active and the dataset on storage,
  and leaves no configuration active in the service.
\<close>

lemma wiki5_run_eval:
  "world_after wiki5_run = wiki5_indexed
   \<and> rag_model (service_after wiki5_run) = Some (LinearRAG_instance (Some wiki5_config))
   \<and> config (service_after wiki5_run) = None
   \<and> status (svc_progress (service_after wiki5_run)) = ascii ''completed''"
  by (simp add: wiki5_run_def wiki5_indexed_def process_documents_def process_documents_try_def
      notify_progress_def Let_def LinearRAGService_def world_after_def service_after_def
      sim_env_def sim_index_def sim_tick_def sim_start_def sim_put_def sim_entries_def
      wiki5_config_def os_path_join_def startswith_def endswith_def suffix_to_prefix ascii_def)



section \<open>Facts about \<open>query\<close>\<close>

lemma query_no_index:
  "rag_model s = None \<Longrightarrow>
   query env q top_k use_llm s w = (Inr (Index_Not_Built msg_index_not_built), s, w)"
  by (simp add: query_def)


lemma query_failed:
  "rag_model s = Some rag \<Longrightarrow> time_time env w = (start, w0) \<Longrightarrow>
   query_try env rag q top_k use_llm start s w0 = (Inl e, s1, w1) \<Longrightarrow>
   query env q top_k use_llm s w =
     (Inr (Query_Failed q (exn_str e)),
      s1\<lparr>svc_progress := (svc_progress s1)\<lparr>status := ascii ''error''\<rparr>\<rparr>, w1)"
  by (simp add: query_def)

lemma query_succeeded:
  "rag_model s = Some rag \<Longrightarrow> time_time env w = (start, w0) \<Longrightarrow>
   query_try env rag q top_k use_llm start s w0 = (Inr ok, s1, w1) \<Longrightarrow>
   query env q top_k use_llm s w = (Inr (Success ok), s1, w1)"
  by (simp add: query_def)



lemma query_try_without_llm:
  "rag_retrieve env rag [(q, [])] w = (Inr (rr # others), w1) \<Longrightarrow>
   time_time env w1 = (t1, w2) \<Longrightarrow> time_time env w2 = (t3, w3) \<Longrightarrow>
   query_try env rag q top_k False start s w =
     (Inr \<lparr>question = q, answer = None, thought = None,
           retrieved_documents = format_documents env rr,
           retrieval_time_ms = round2 env ((t1 - start) * 1000),
           llm_time_ms = None,
           total_time_ms = round2 env ((t3 - start) * 1000)\<rparr>,
      s\<lparr>svc_progress := (svc_progress s)\<lparr>status := ascii ''completed''\<rparr>\<rparr>, w3)"
  by (simp add: query_try_def)


lemma query_try_keeps_engine:
  "query_try env rag q top_k use_llm start s w = (x, s', w') \<Longrightarrow> rag_model s' = rag_model s"
  by (auto simp: query_try_def Let_def
      split: prod.splits sum.splits list.splits option.splits if_splits)

lemma query_try_question:
  "query_try env rag q top_k use_llm start s w = (Inr ok, s', w') \<Longrightarrow> question ok = q"
  by (auto simp: query_try_def Let_def
      split: prod.splits sum.splits list.splits option.splits if_splits)

lemma format_documents_content:
  "map content (format_documents env rr) =
     take (length (sorted_passage_scores rr)) (sorted_passage rr)"
proof -
  have "map content (format_documents env rr) =
          map fst (zip (sorted_passage rr) (sorted_passage_scores rr))"
    by (simp add: format_documents_def case_prod_unfold comp_def)
  then show ?thesis
    by (simp add: map_fst_zip_take min_def)
qed


text \<open>
  With \<open>use_llm\<close> false, \<open>top_k\<close> is not read: the slice \<open>[:top_k]\<close> stands only in the
  construction of the prompt (line 252).
\<close>

lemma query_try_ignores_top_k:
  "query_try env rag q top_k False start s w = query_try env rag q top_k' False start s w"
  by (simp add: query_try_def Let_def split: prod.splits sum.splits list.splits)

lemma query_ignores_top_k:
  "query env q top_k False s w = query env q top_k' False s w"
  by (cases "rag_model s")
     (simp_all add: query_def query_try_ignores_top_k [of env _ q top_k _ s _ top_k'])

text \<open>
  What one call of \<open>query\<close> gives a batch: a result, never an exception; the engine stays
  as it was; without an engine the result is the dictionary of the guard, which has no
  question; with an engine the result carries the question.
\<close>

lemma query_result_cases:
  "\<exists>r s' w'. query env q top_k use_llm s w = (Inr r, s', w') \<and> rag_model s' = rag_model s
     \<and> (rag_model s = None \<longrightarrow> r = Index_Not_Built msg_index_not_built)
     \<and> (rag_model s \<noteq> None \<longrightarrow> result_question r = Some q)"
proof (cases "rag_model s")
  case None
  then show ?thesis by (simp add: query_no_index)
next
  case (Some rag)
  obtain start w0 where t0: "time_time env w = (start, w0)" by (cases "time_time env w")
  obtain x s1 w1 where qt: "query_try env rag q top_k use_llm start s w0 = (x, s1, w1)"
    by (cases "query_try env rag q top_k use_llm start s w0")
  from qt have keep: "rag_model s1 = rag_model s" by (rule query_try_keeps_engine)
  show ?thesis
  proof (cases x)
    case (Inl e)
    with Some t0 qt keep show ?thesis by (simp add: query_failed)
  next
    case (Inr ok)
    with qt have "question ok = q" by (simp add: query_try_question)
    with Some t0 qt keep Inr show ?thesis by (simp add: query_succeeded)
  qed
qed

section \<open>The query pipeline\<close>







section \<open>Batch queries\<close>

text \<open>
  The loop of \<open>batch_query\<close> never stops early, since \<open>query\<close> never raises: it appends one
  result per question, in order. Without an engine every result is the dictionary of the
  guard; with an engine the result at each position carries the question at that position.
\<close>

lemma batch_loop_results:
  "\<exists>rs s' w'. batch_loop env top_k use_llm qs acc s w = (Inr (acc @ rs), s', w')
     \<and> length rs = length qs
     \<and> (rag_model s = None \<longrightarrow> rs = map (\<lambda>q. Index_Not_Built msg_index_not_built) qs)
     \<and> (rag_model s \<noteq> None \<longrightarrow> map result_question rs = map Some qs)"
proof (induction qs arbitrary: acc s w)
  case Nil
  then show ?case by simp
next
  case (Cons q qs)
  from query_result_cases [of env q top_k use_llm s w]
  obtain r s1 w1 where q: "query env q top_k use_llm s w = (Inr r, s1, w1)"
    and keep: "rag_model s1 = rag_model s"
    and none: "rag_model s = None \<longrightarrow> r = Index_Not_Built msg_index_not_built"
    and some: "rag_model s \<noteq> None \<longrightarrow> result_question r = Some q"
    by (elim exE conjE)
  from Cons.IH [of "acc @ [r]" s1 w1]
  obtain rs s' w' where rest: "batch_loop env top_k use_llm qs (acc @ [r]) s1 w1 = (Inr ((acc @ [r]) @ rs), s', w')"
    and len: "length rs = length qs"
    and none': "rag_model s1 = None \<longrightarrow> rs = map (\<lambda>q. Index_Not_Built msg_index_not_built) qs"
    and some': "rag_model s1 \<noteq> None \<longrightarrow> map result_question rs = map Some qs"
    by (elim exE conjE)
  show ?case
  proof (intro exI conjI)
    show "batch_loop env top_k use_llm (q # qs) acc s w = (Inr (acc @ (r # rs)), s', w')"
      using q rest by simp
    show "length (r # rs) = length (q # qs)"
      using len by simp
    show "rag_model s = None \<longrightarrow>
            r # rs = map (\<lambda>q. Index_Not_Built msg_index_not_built) (q # qs)"
      using none none' keep by simp
    show "rag_model s \<noteq> None \<longrightarrow> map result_question (r # rs) = map Some (q # qs)"
      using some some' keep by simp
  qed
qed

lemma batch_query_results:
  "\<exists>b s' w'. batch_query env questions top_k use_llm s w = (Inr b, s', w')
     \<and> length (results b) = length questions \<and> questions_count b = length questions
     \<and> (rag_model s = None \<longrightarrow> results b = map (\<lambda>q. Index_Not_Built msg_index_not_built) questions)
     \<and> (rag_model s \<noteq> None \<longrightarrow> map result_question (results b) = map Some questions)"
proof -
  obtain start w0 where t0: "time_time env w = (start, w0)" by (cases "time_time env w")
  from batch_loop_results [of env top_k use_llm questions "[]" s w0]
  obtain rs s' w' where loop: "batch_loop env top_k use_llm questions [] s w0 = (Inr rs, s', w')"
    and len: "length rs = length questions"
    and none: "rag_model s = None \<longrightarrow> rs = map (\<lambda>q. Index_Not_Built msg_index_not_built) questions"
    and some: "rag_model s \<noteq> None \<longrightarrow> map result_question rs = map Some questions"
    by (elim exE conjE) simp
  obtain t w1 where t1: "time_time env w' = (t, w1)" by (cases "time_time env w'")
  have "batch_query env questions top_k use_llm s w =
     (Inr \<lparr>results = rs, batch_total_time_ms = round2 env ((t - start) * 1000),
           questions_count = length questions\<rparr>, s', w1)"
    by (simp add: batch_query_def t0 loop t1)
  with len none some show ?thesis by simp
qed

text \<open>
  Claim C4, at the input where the code departs from it: a batch of one question on a
  service with no active engine. The batch returns one result, the dictionary of the
  guard (lines 217 to 220), whose \<open>question\<close> key is absent, where the claim has the
  question itself.
\<close>

theorem batch_query_without_index:
  "map_option (\<lambda>b. map result_question (results b))
     (returned (batch_query sim_env [ascii ''What is doc1 about?''] 5 True LinearRAGService sim_start))
   = Some [None]"
proof -
  have "rag_model LinearRAGService = None" by (simp add: LinearRAGService_def)
  with batch_query_results [of sim_env "[ascii ''What is doc1 about?'']" 5 True LinearRAGService sim_start]
  show ?thesis by (auto simp: returned_def)
qed

text \<open>
  Claim C8, at the input where the code departs from it: after the two passages are
  indexed, a query with \<open>top_k = 1\<close> and \<open>use_llm\<close> false returns both passages as documents,
  where the claim has exactly one.
\<close>

theorem query_top_k_not_applied:
  "map_option (map content)
     (Option.bind (returned (query sim_env wiki5_question 1 False
                               (service_after wiki5_run) (world_after wiki5_run)))
        result_documents)
   = Some [ascii ''doc1 text'', ascii ''doc2 text'']"
proof -
  let ?s = "service_after wiki5_run"
  let ?w1 = "wiki5_indexed\<lparr>sim_ticks := 2\<rparr>"
  let ?rr = "\<lparr>sorted_passage = wiki5_passages, sorted_passage_scores = [1, 1 / 2]\<rparr>"
  have t0: "time_time sim_env wiki5_indexed = (1, ?w1)"
    by (simp add: sim_time wiki5_indexed_def)
  have r: "rag_retrieve sim_env (LinearRAG_instance (Some wiki5_config)) [(wiki5_question, [])] ?w1
             = (Inr [?rr], ?w1)"
    by (rule sim_retrieve_wiki5) (simp add: wiki5_indexed_def)
  have t1: "time_time sim_env ?w1 = (2, wiki5_indexed\<lparr>sim_ticks := 3\<rparr>)"
    by (simp add: sim_time wiki5_indexed_def)
  have t3: "time_time sim_env (wiki5_indexed\<lparr>sim_ticks := 3\<rparr>) = (3, wiki5_indexed\<lparr>sim_ticks := 4\<rparr>)"
    by (simp add: sim_time wiki5_indexed_def)
  have "query sim_env wiki5_question 1 False ?s wiki5_indexed =
      (Inr (Success \<lparr>question = wiki5_question, answer = None, thought = None,
           retrieved_documents = format_documents sim_env ?rr,
           retrieval_time_ms = round2 sim_env ((2 - 1) * 1000),
           llm_time_ms = None,
           total_time_ms = round2 sim_env ((3 - 1) * 1000)\<rparr>),
       ?s\<lparr>svc_progress := (svc_progress ?s)\<lparr>status := ascii ''completed''\<rparr>\<rparr>, wiki5_indexed\<lparr>sim_ticks := 4\<rparr>)"
    using wiki5_run_eval t0 query_try_without_llm [OF r t1 t3]
    by (simp add: query_succeeded)
  then show ?thesis
    using wiki5_run_eval
    by (simp add: returned_def format_documents_content wiki5_passages_def)
qed

section \<open>The model cache and the service context\<close>

text \<open>
  Claim C3. After a first successful call of \<open>load_embedding_model\<close> with a path \<open>p1\<close>,
  the model it returned is cached, and a later call with any path \<open>p2\<close>, equal to \<open>p1\<close> or
  not, returns that same model and leaves the service and the world as they were. The
  later call does not construct a model: it gives the same result whatever the
  constructor \<open>ctor\<close> would do. When the cache was empty before the first call, the cached
  model is the one the constructor made from \<open>p1\<close> in that call.
\<close>

theorem load_embedding_model_memoized:
  assumes first: "load_embedding_model env p1 s w = (Inr m, s1, w1)"
  shows "embedding_model s1 = Some m
     \<and> load_embedding_model env p2 s1 w1 = (Inr m, s1, w1)
     \<and> load_embedding_model (env\<lparr>SentenceTransformer := ctor\<rparr>) p2 s1 w1 = (Inr m, s1, w1)
     \<and> (embedding_model s = None \<longrightarrow>
          SentenceTransformer env p1
            (snd (notify_progress env (1 / 10) (ascii ''loading_embedding'')
                    msg_loading_embedding s w))
          = (Inr m, w1))"
proof -
  have cached: "embedding_model s1 = Some m"
  proof (cases "embedding_model s")
    case None
    with first show ?thesis
      by (auto simp: load_embedding_model_def Let_def split: prod.splits sum.splits)
  next
    case (Some m')
    with first show ?thesis
      by (simp add: load_embedding_model_def)
  qed
  have built: "embedding_model s = None \<longrightarrow>
          SentenceTransformer env p1
            (snd (notify_progress env (1 / 10) (ascii ''loading_embedding'')
                    msg_loading_embedding s w))
          = (Inr m, w1)"
    using first
    by (auto simp: load_embedding_model_def Let_def split: prod.splits sum.splits)
  from cached built show ?thesis
    by (simp add: load_embedding_model_def)
qed

text \<open>
  Witness for C3: a first load on a fresh service, then a load with another path, also
  with a constructor that would fail; one identity has been handed out.
\<close>

theorem load_embedding_model_memoized_witness:
  "load_embedding_model sim_env (ascii ''another/model'')
     (service_after wiki5_first_load) (world_after wiki5_first_load)
   = (Inr (SentenceTransformerRef 0), service_after wiki5_first_load, world_after wiki5_first_load)
   \<and> load_embedding_model (sim_env\<lparr>SentenceTransformer :=
          (\<lambda>path w. (Inl (Exn (ascii ''RuntimeError'') (ascii ''out of memory'')), w))\<rparr>)
        (ascii ''another/model'') (service_after wiki5_first_load) (world_after wiki5_first_load)
   = (Inr (SentenceTransformerRef 0), service_after wiki5_first_load, world_after wiki5_first_load)
   \<and> SentenceTransformer sim_env (ascii ''model/all-mpnet-base-v2'') sim_start
       = (Inr (SentenceTransformerRef 0), world_after wiki5_first_load)
   \<and> sim_next_id (world_after wiki5_first_load) = 1"
proof -
  have first: "load_embedding_model sim_env (ascii ''model/all-mpnet-base-v2'') LinearRAGService sim_start
      = (Inr (SentenceTransformerRef 0), service_after wiki5_first_load, world_after wiki5_first_load)"
    by (simp add: wiki5_first_load_def load_embedding_model_def notify_progress_def Let_def
        sim_env_def LinearRAGService_def service_after_def world_after_def sim_start_def)
  have fresh: "embedding_model LinearRAGService = None"
    by (simp add: LinearRAGService_def)
  have quiet: "snd (notify_progress sim_env (1 / 10) (ascii ''loading_embedding'')
                    msg_loading_embedding LinearRAGService sim_start) = sim_start"
    by (simp add: notify_progress_def Let_def LinearRAGService_def)
  have count: "sim_next_id (world_after wiki5_first_load) = 1"
    by (simp add: wiki5_first_load_def load_embedding_model_def notify_progress_def Let_def
        sim_env_def LinearRAGService_def world_after_def sim_start_def)
  from load_embedding_model_memoized [OF first, where ?p2.0 = "ascii ''another/model''"
      and ctor = "\<lambda>path w. (Inl (Exn (ascii ''RuntimeError'') (ascii ''out of memory'')), w)"]
    fresh quiet count
  show ?thesis by simp
qed

text \<open>No other operation of the service empties the cache of the embedding model.\<close>

lemma cached_embedding_model_survives:
  "embedding_model (clear s) = embedding_model s"
  "embedding_model (service_after (query env q top_k use_llm s w)) = embedding_model s"
  "embedding_model (service_after (process_documents env passages dataset_name cfg cb s w))
     = embedding_model s"
  "embedding_model (service_after (load_llm_model env model_name s w)) = embedding_model s"
proof -
  show "embedding_model (clear s) = embedding_model s"
    by (simp add: clear_def)
  show "embedding_model (service_after (query env q top_k use_llm s w)) = embedding_model s"
    by (auto simp: query_def query_try_def Let_def service_after_def
        split: prod.splits sum.splits list.splits option.splits if_splits)
  show "embedding_model (service_after (process_documents env passages dataset_name cfg cb s w))
     = embedding_model s"
    by (auto simp: process_documents_def process_documents_try_def notify_progress_def Let_def
        service_after_def register_progress_callback_def
        split: prod.splits sum.splits option.splits)
  show "embedding_model (service_after (load_llm_model env model_name s w)) = embedding_model s"
    by (auto simp: load_llm_model_def notify_progress_def Let_def service_after_def
        split: prod.splits sum.splits option.splits)
qed

lemma initialize_config_activates:
  "initialize_config env dataset_name embedding_model_path spacy_model llm_model_name
       working_dir max_workers retrieval_top_k max_iterations top_k_sentence passage_ratio
       passage_node_weight damping iteration_threshold batch_size s w = (Inr c, s', w') \<Longrightarrow>
   config s' = Some c \<and> cfg_working_dir c = working_dir \<and> cfg_dataset_name c = dataset_name
   \<and> embedding_model s' = Some (cfg_embedding_model c) \<and> llm_model s' = Some (cfg_llm_model c)"
  by (auto simp: initialize_config_def load_embedding_model_def load_llm_model_def
      notify_progress_def Let_def split: prod.splits sum.splits option.splits)

text \<open>
  Claim C9, as the code has it. \<open>clear\<close> (lines 358 to 363) resets the engine instance,
  the configuration and the dataset name to absent and installs a fresh \<open>ProgressInfo\<close>;
  it keeps the cached embedding model, the cached language model and the registered
  callbacks.
\<close>

theorem clear_keeps_models:
  "rag_model (clear s) = None \<and> config (clear s) = None \<and> current_dataset (clear s) = None
   \<and> svc_progress (clear s) = ProgressInfo
   \<and> embedding_model (clear s) = embedding_model s \<and> llm_model (clear s) = llm_model s
   \<and> progress_callbacks (clear s) = progress_callbacks s"
  by (simp add: clear_def)

text \<open>
  Against C9 as stated: on a service with both models cached, the two handles are still
  there after \<open>clear\<close>.
\<close>

theorem clear_keeps_models_counterexample:
  "embedding_model (clear wiki5_service) = Some (SentenceTransformerRef 0)
   \<and> llm_model (clear wiki5_service) = Some (LLMRef 1)"
  by (simp add: clear_def wiki5_service_def LinearRAGService_def)

section \<open>Progress of an indexing run\<close>

text \<open>
  Claim C7, as the code has it. The values \<open>process_documents\<close> writes to \<open>progress\<close> during
  one run all lie between 0 and 1. A run that completes writes 0.05, 0.15, 0.25 and 1.0,
  in this order, and ends with status \<open>completed\<close>. A run that fails wrote 0.05 and 0.15,
  or 0.05, 0.15 and 0.25, and its handler then writes 0 (line 193): the progress is
  non-decreasing up to the failure and is reset to 0 by the failing run itself, with
  status \<open>error\<close>. The run always returns.
\<close>

theorem process_documents_progress:
  "(let out = process_documents env passages dataset_name cfg cb s w;
        written = progress_written s (service_after out);
        final = svc_progress (service_after out)
    in list_all (\<lambda>p. 0 \<le> p \<and> p \<le> 1) written
       \<and> (case returned out of
             None \<Rightarrow> False
           | Some (Processed m n d) \<Rightarrow>
               written = [5 / 100, 15 / 100, 25 / 100, 1] \<and> sorted written
               \<and> status final = ascii ''completed''
           | Some (Process_Failed m e) \<Rightarrow>
               (written = [5 / 100, 15 / 100, 0] \<or> written = [5 / 100, 15 / 100, 25 / 100, 0])
               \<and> sorted (butlast written) \<and> last written = 0
               \<and> status final = ascii ''error'' \<and> progress final = 0))"
  by (auto simp: process_documents_def process_documents_try_def notify_progress_def Let_def
      service_after_def returned_def progress_written_def register_progress_callback_def
      split: prod.splits sum.splits option.splits)

text \<open>
  Against C7 as stated: indexing on full storage. The engine raises in \<open>index\<close>, and the
  values written during this one run are 0.05, 0.15, 0.25 and 0: not non-decreasing.
\<close>

theorem process_documents_progress_counterexample:
  "progress_written LinearRAGService (service_after wiki5_run_full)
     = [5 / 100, 15 / 100, 25 / 100, 0]
   \<and> \<not> sorted (progress_written LinearRAGService (service_after wiki5_run_full))"
proof -
  have "progress_written LinearRAGService (service_after wiki5_run_full)
          = [5 / 100, 15 / 100, 25 / 100, 0]"
    by (simp add: wiki5_run_full_def process_documents_def process_documents_try_def
      notify_progress_def Let_def LinearRAGService_def service_after_def progress_written_def
      sim_env_def sim_index_def sim_tick_def sim_start_def wiki5_config_def)
  then show ?thesis by simp
qed

section \<open>The dataset listing\<close>









end
